theory Spec2Isabelle
  imports Main
begin

section \<open>Values shared by the three layers\<close>

text \<open>
  The exceptions the program throws or lets through. All of them derive from
  \<^verbatim>\<open>std::exception\<close>, so the handler of \<^verbatim>\<open>handle_api_request\<close> catches each one.
  \<^verbatim>\<open>boost_json_error\<close> stands for whatever Boost.JSON throws; the string is its
  \<^verbatim>\<open>what()\<close>.
\<close>

datatype exn =
    invalid_argument string
  | runtime_error string
  | boost_json_error string

fun what :: "exn \<Rightarrow> string" where
  "what (invalid_argument m) = m"
| "what (runtime_error m) = m"
| "what (boost_json_error m) = m"

text \<open>
  A call either throws, or runs into undefined behaviour: \<^verbatim>\<open>null_string\<close> is the
  assignment of a null \<^verbatim>\<open>const char*\<close> to a \<^verbatim>\<open>std::string\<close>, which no handler
  catches.
\<close>

datatype failure = throws exn | null_string

text \<open>\<^verbatim>\<open>struct Task\<close> of database.h; the field \<^verbatim>\<open>id\<close> is \<^verbatim>\<open>task_id\<close> here.\<close>

record Task =
  task_id :: int
  title :: string
  description :: string
  completed :: bool

text \<open>
  A \<^verbatim>\<open>const char*\<close> read as a C string ends at the first zero byte: this is
  what \<^verbatim>\<open>sqlite3_bind_text(..., s.c_str(), -1, ...)\<close> binds and what the
  conversion of a \<^verbatim>\<open>const char*\<close> to \<^verbatim>\<open>std::string\<close> copies.
\<close>

definition c_str :: "string \<Rightarrow> string" where
  "c_str s = takeWhile (\<lambda>c. c \<noteq> CHR 0x00) s"

text \<open>The conversion of a 64-bit row id to the 32-bit \<^verbatim>\<open>int\<close> of the program.\<close>

definition int32 :: "int \<Rightarrow> int" where
  "int32 x = (x + 2147483648) mod 4294967296 - 2147483648"

text \<open>\<^verbatim>\<open>std::to_string(int)\<close>.\<close>

definition digit_char :: "nat \<Rightarrow> char" where
  "digit_char n = ''0123456789'' ! (n mod 10)"

fun dec :: "nat \<Rightarrow> string" where
  "dec n = (if n < 10 then [digit_char n] else dec (n div 10) @ [digit_char n])"

declare dec.simps [simp del]

definition to_string :: "int \<Rightarrow> string" where
  "to_string i = (if i < 0 then CHR ''-'' # dec (nat (- i)) else dec (nat i))"

section \<open>The SQLite connection\<close>

text \<open>
  The part of the SQLite C interface the program calls, after the library's
  documentation. The connection holds the table \<^verbatim>\<open>tasks\<close> (the rows in row id
  order), the AUTOINCREMENT counter, the values \<^verbatim>\<open>sqlite3_last_insert_rowid\<close> and
  \<^verbatim>\<open>sqlite3_changes\<close> report, and the number of prepared statements that are not
  finalized yet. Every row was written through \<^verbatim>\<open>sqlite3_bind_text\<close>, so no
  column of a row is NULL.
\<close>

record row =
  rowid :: int
  r_title :: string
  r_description :: string
  r_completed :: bool

record sqlite3 =
  tasks_table :: "row list"
  autoinc_seq :: int
  last_insert_rowid :: int
  changes :: nat
  open_stmts :: nat

text \<open>
  What the engine decides on its own during one call of a \<^verbatim>\<open>Database\<close> method:
  whether \<^verbatim>\<open>sqlite3_prepare_v2\<close> fails, which call of \<^verbatim>\<open>sqlite3_step\<close> on the
  statement (counted from 0) reports an error, and the text \<^verbatim>\<open>sqlite3_errmsg\<close>
  returns.
\<close>

record sqlite_env =
  prepare_fails :: bool
  step_error_at :: "nat option"
  errmsg :: string

datatype step_result = SQLITE_ROW row | SQLITE_DONE | SQLITE_ERROR

definition sqlite3_prepare_v2 :: "sqlite_env \<Rightarrow> sqlite3 \<Rightarrow> bool \<times> sqlite3" where
  "sqlite3_prepare_v2 env db =
     (if prepare_fails env then (False, db)
      else (True, db\<lparr>open_stmts := Suc (open_stmts db)\<rparr>))"

definition sqlite3_finalize :: "sqlite3 \<Rightarrow> sqlite3" where
  "sqlite3_finalize db = db\<lparr>open_stmts := open_stmts db - 1\<rparr>"

text \<open>
  AUTOINCREMENT: the new row id is one more than the largest row id the table
  ever held; the insert fails (SQLITE_FULL) once the largest 64-bit row id is
  used up. A step that fails changes no row and leaves \<^verbatim>\<open>sqlite3_changes\<close> at 0.
\<close>

definition largest_rowid :: "sqlite3 \<Rightarrow> int" where
  "largest_rowid db = fold max (map rowid (tasks_table db)) (autoinc_seq db)"

definition step_insert ::
  "sqlite_env \<Rightarrow> sqlite3 \<Rightarrow> string \<Rightarrow> string \<Rightarrow> bool \<Rightarrow> step_result \<times> sqlite3" where
  "step_insert env db t d c =
     (if step_error_at env = Some 0 \<or> 9223372036854775807 \<le> largest_rowid db
      then (SQLITE_ERROR, db\<lparr>changes := 0\<rparr>)
      else (let r = largest_rowid db + 1 in
        (SQLITE_DONE,
         db\<lparr>tasks_table := tasks_table db @
               [\<lparr>rowid = r, r_title = t, r_description = d, r_completed = c\<rparr>],
            autoinc_seq := r, last_insert_rowid := r, changes := 1\<rparr>)))"

definition step_update ::
  "sqlite_env \<Rightarrow> sqlite3 \<Rightarrow> string \<Rightarrow> string \<Rightarrow> bool \<Rightarrow> int \<Rightarrow> step_result \<times> sqlite3" where
  "step_update env db t d c i =
     (if step_error_at env = Some 0 then (SQLITE_ERROR, db\<lparr>changes := 0\<rparr>)
      else (SQLITE_DONE,
        db\<lparr>tasks_table :=
              map (\<lambda>r. if rowid r = i
                        then r\<lparr>r_title := t, r_description := d, r_completed := c\<rparr>
                        else r) (tasks_table db),
           changes := length (filter (\<lambda>r. rowid r = i) (tasks_table db))\<rparr>))"

definition step_delete :: "sqlite_env \<Rightarrow> sqlite3 \<Rightarrow> int \<Rightarrow> step_result \<times> sqlite3" where
  "step_delete env db i =
     (if step_error_at env = Some 0 then (SQLITE_ERROR, db\<lparr>changes := 0\<rparr>)
      else (SQLITE_DONE,
        db\<lparr>tasks_table := filter (\<lambda>r. rowid r \<noteq> i) (tasks_table db),
           changes := length (filter (\<lambda>r. rowid r = i) (tasks_table db))\<rparr>))"

definition step_select_by_id :: "sqlite_env \<Rightarrow> sqlite3 \<Rightarrow> int \<Rightarrow> step_result" where
  "step_select_by_id env db i =
     (if step_error_at env = Some 0 then SQLITE_ERROR
      else (case find (\<lambda>r. rowid r = i) (tasks_table db) of
              Some r \<Rightarrow> SQLITE_ROW r
            | None \<Rightarrow> SQLITE_DONE))"

text \<open>The \<open>n\<close>-th step of the scan of the whole table.\<close>

definition step_select_all :: "sqlite_env \<Rightarrow> sqlite3 \<Rightarrow> nat \<Rightarrow> step_result" where
  "step_select_all env db n =
     (if step_error_at env = Some n then SQLITE_ERROR
      else if n < length (tasks_table db) then SQLITE_ROW (tasks_table db ! n)
      else SQLITE_DONE)"

text \<open>
  The column readers. With a current row they return its column. With none
  (the last step did not return SQLITE_ROW) the engine hands out its NULL value:
  0 as an integer, a null pointer (\<open>None\<close>) as text.
\<close>

definition current_row :: "step_result \<Rightarrow> row option" where
  "current_row s = (case s of SQLITE_ROW r \<Rightarrow> Some r | _ \<Rightarrow> None)"

definition sqlite3_column_int :: "row option \<Rightarrow> (row \<Rightarrow> int) \<Rightarrow> int" where
  "sqlite3_column_int cur col = (case cur of Some r \<Rightarrow> int32 (col r) | None \<Rightarrow> 0)"

definition sqlite3_column_text :: "row option \<Rightarrow> (row \<Rightarrow> string) \<Rightarrow> string option" where
  "sqlite3_column_text cur col = (case cur of Some r \<Rightarrow> Some (c_str (col r)) | None \<Rightarrow> None)"

section \<open>Database (database.cpp)\<close>

text \<open>
  Every method takes the connection and returns it with its result: a thrown
  exception leaves the connection as it was at the \<^verbatim>\<open>throw\<close>.
\<close>

definition Database_add_task :: "sqlite_env \<Rightarrow> sqlite3 \<Rightarrow> Task \<Rightarrow> (exn + int) \<times> sqlite3" where
  "Database_add_task env db task =
     (case sqlite3_prepare_v2 env db of
        (False, db1) \<Rightarrow> (Inl (runtime_error (errmsg env)), db1)
      | (True, db1) \<Rightarrow>
          (case step_insert env db1 (c_str (title task)) (c_str (description task))
                  (completed task) of
             (SQLITE_DONE, db2) \<Rightarrow>
               (Inr (int32 (last_insert_rowid db2)), sqlite3_finalize db2)
           | (_, db2) \<Rightarrow>
               (Inl (runtime_error ''Failed to inserd task''), sqlite3_finalize db2)))"

text \<open>
  In \<^verbatim>\<open>update_task\<close> and \<^verbatim>\<open>delete_task\<close> the \<^verbatim>\<open>throw\<close> of the zero-row branch
  comes before \<^verbatim>\<open>sqlite3_finalize\<close>; the assignment after it is never reached.
\<close>

definition Database_update_task :: "sqlite_env \<Rightarrow> sqlite3 \<Rightarrow> Task \<Rightarrow> (exn + bool) \<times> sqlite3" where
  "Database_update_task env db task =
     (case sqlite3_prepare_v2 env db of
        (False, db1) \<Rightarrow> (Inl (runtime_error (errmsg env)), db1)
      | (True, db1) \<Rightarrow>
          (case step_update env db1 (c_str (title task)) (c_str (description task))
                  (completed task) (task_id task) of
             (rc, db2) \<Rightarrow>
               (let success = (rc = SQLITE_DONE) in
                if success \<and> changes db2 = 0
                then (Inl (runtime_error (errmsg env)), db2)
                else (Inr success, sqlite3_finalize db2))))"

definition Database_delete_task :: "sqlite_env \<Rightarrow> sqlite3 \<Rightarrow> int \<Rightarrow> (exn + bool) \<times> sqlite3" where
  "Database_delete_task env db i =
     (case sqlite3_prepare_v2 env db of
        (False, db1) \<Rightarrow> (Inl (runtime_error (errmsg env)), db1)
      | (True, db1) \<Rightarrow>
          (case step_delete env db1 i of
             (rc, db2) \<Rightarrow>
               (let success = (rc = SQLITE_DONE) in
                if success \<and> changes db2 = 0
                then (Inl (runtime_error (errmsg env)), db2)
                else (Inr success, sqlite3_finalize db2))))"

text \<open>
  \<^verbatim>\<open>get_task_by_id\<close> reads the columns when the step did \<^emph>\<open>not\<close> return
  SQLITE_ROW, and throws when it did. The two string assignments take what
  \<^verbatim>\<open>sqlite3_column_text\<close> returns; a null pointer there is \<open>null_string\<close>.
\<close>

definition Database_get_task_by_id ::
  "sqlite_env \<Rightarrow> sqlite3 \<Rightarrow> int \<Rightarrow> (failure + Task) \<times> sqlite3" where
  "Database_get_task_by_id env db i =
     (case sqlite3_prepare_v2 env db of
        (False, db1) \<Rightarrow> (Inl (throws (runtime_error (errmsg env))), db1)
      | (True, db1) \<Rightarrow>
          (case step_select_by_id env db1 i of
             SQLITE_ROW r \<Rightarrow>
               (Inl (throws (runtime_error (''Task not found with id: '' @ to_string i))),
                sqlite3_finalize db1)
           | rc \<Rightarrow>
               (let cur = current_row rc in
                case sqlite3_column_text cur r_title of
                  None \<Rightarrow> (Inl null_string, db1)
                | Some t \<Rightarrow>
                    (case sqlite3_column_text cur r_description of
                       None \<Rightarrow> (Inl null_string, db1)
                     | Some d \<Rightarrow>
                         (Inr \<lparr>task_id = sqlite3_column_int cur rowid, title = t,
                                description = d,
                                completed =
                                  (sqlite3_column_int cur
                                     (\<lambda>r. if r_completed r then 1 else 0) \<noteq> 0)\<rparr>,
                          sqlite3_finalize db1)))))"

text \<open>
  The loop of \<^verbatim>\<open>get_all_tasks\<close>: \<open>n\<close> steps are done, \<open>tasks\<close> is the vector so
  far. Inside the loop the statement has a current row, whose columns are read.
\<close>

function get_all_tasks_loop :: "sqlite_env \<Rightarrow> sqlite3 \<Rightarrow> nat \<Rightarrow> Task list \<Rightarrow> Task list" where
  "get_all_tasks_loop env db n tasks =
     (case step_select_all env db n of
        SQLITE_ROW r \<Rightarrow>
          get_all_tasks_loop env db (Suc n)
            (tasks @ [\<lparr>task_id = int32 (rowid r), title = c_str (r_title r),
                        description = c_str (r_description r),
                        completed = r_completed r\<rparr>])
      | _ \<Rightarrow> tasks)"
  by pat_completeness auto
termination
  by (relation "measure (\<lambda>(env, db, n, tasks). length (tasks_table db) - n)")
     (auto simp: step_select_all_def split: if_splits)

declare get_all_tasks_loop.simps [simp del]

definition Database_get_all_tasks :: "sqlite_env \<Rightarrow> sqlite3 \<Rightarrow> (exn + Task list) \<times> sqlite3" where
  "Database_get_all_tasks env db =
     (case sqlite3_prepare_v2 env db of
        (False, db1) \<Rightarrow> (Inl (runtime_error (errmsg env)), db1)
      | (True, db1) \<Rightarrow> (Inr (get_all_tasks_loop env db1 0 []), sqlite3_finalize db1))"

section \<open>TaskManager (task_manager.cpp)\<close>

text \<open>
  The validation of \<^verbatim>\<open>create_task\<close> and \<^verbatim>\<open>update_task\<close> is an outer test of
  both conditions around two throwing tests, one per condition, in this order;
  it is written here as the chain of the two inner tests. \<^verbatim>\<open>update_task\<close>
  calls the store twice; each call has its own engine behaviour.
\<close>

definition TaskManager_create_task ::
  "sqlite_env \<Rightarrow> sqlite3 \<Rightarrow> string \<Rightarrow> string \<Rightarrow> (exn + int) \<times> sqlite3" where
  "TaskManager_create_task env db t d =
     (if t = [] then (Inl (invalid_argument ''Task title cannot be empty''), db)
      else if 100 < length t
      then (Inl (invalid_argument ''Task title too long (max 100 chars)''), db)
      else Database_add_task env db
             \<lparr>task_id = 0, title = t, description = d, completed = False\<rparr>)"

definition TaskManager_update_task ::
  "sqlite_env \<Rightarrow> sqlite_env \<Rightarrow> sqlite3 \<Rightarrow> int \<Rightarrow> string \<Rightarrow> string \<Rightarrow> bool
     \<Rightarrow> (failure + bool) \<times> sqlite3" where
  "TaskManager_update_task env env' db i t d complited =
     (if i \<le> 0 then (Inl (throws (invalid_argument ''Invalid task ID'')), db)
      else if t = [] then (Inl (throws (invalid_argument ''Task title cannot be empty'')), db)
      else (case Database_get_task_by_id env db i of
              (Inl f, db1) \<Rightarrow> (Inl f, db1)
            | (Inr existing_task, db1) \<Rightarrow>
                if task_id existing_task = 0 then (Inr False, db1)
                else (case Database_update_task env' db1
                             (existing_task\<lparr>title := t, description := d,
                                              completed := complited\<rparr>) of
                        (Inl e, db2) \<Rightarrow> (Inl (throws e), db2)
                      | (Inr b, db2) \<Rightarrow> (Inr b, db2))))"

definition TaskManager_delete_task :: "sqlite_env \<Rightarrow> sqlite3 \<Rightarrow> int \<Rightarrow> (exn + bool) \<times> sqlite3" where
  "TaskManager_delete_task env db i =
     (if i \<le> 0 then (Inl (invalid_argument ''Invalid task ID''), db)
      else Database_delete_task env db i)"

definition TaskManager_get_task ::
  "sqlite_env \<Rightarrow> sqlite3 \<Rightarrow> int \<Rightarrow> (failure + Task) \<times> sqlite3" where
  "TaskManager_get_task env db i =
     (if i \<le> 0 then (Inl (throws (invalid_argument ''Invalid task ID'')), db)
      else (case Database_get_task_by_id env db i of
              (Inl f, db1) \<Rightarrow> (Inl f, db1)
            | (Inr task, db1) \<Rightarrow>
                if task_id task \<le> 0 then (Inl (throws (runtime_error ''Task not found'')), db1)
                else (Inr task, db1)))"

definition TaskManager_get_all_tasks :: "sqlite_env \<Rightarrow> sqlite3 \<Rightarrow> (exn + Task list) \<times> sqlite3" where
  "TaskManager_get_all_tasks env db = Database_get_all_tasks env db"

section \<open>HttpServer (http_server.cpp)\<close>

text \<open>
  Boost.JSON is outside the repository: the parser and the texts of the
  library's exceptions are taken as given. \<open>parse\<close> returns \<open>Inl m\<close> when
  \<^verbatim>\<open>json::parse\<close> throws with \<^verbatim>\<open>what()\<close> \<open>m\<close>.
\<close>

datatype json =
    JNull
  | JBool bool
  | JInt int
  | JString string
  | JArray "json list"
  | JObject "(string \<times> json) list"

record boost_json =
  parse :: "string \<Rightarrow> string + json"
  not_object_what :: string
  not_string_what :: string

definition as_object :: "boost_json \<Rightarrow> json \<Rightarrow> exn + (string \<times> json) list" where
  "as_object lib v =
     (case v of JObject kvs \<Rightarrow> Inr kvs | _ \<Rightarrow> Inl (boost_json_error (not_object_what lib)))"

definition as_string :: "boost_json \<Rightarrow> json \<Rightarrow> exn + string" where
  "as_string lib v =
     (case v of JString s \<Rightarrow> Inr s | _ \<Rightarrow> Inl (boost_json_error (not_string_what lib)))"

datatype verb = GET | POST | PUT | DELETE | other_verb

record request =
  req_version :: nat
  req_method :: verb
  req_target :: string
  req_body :: string

text \<open>
  The response; \<open>res_body\<close> is the JSON value handed to \<^verbatim>\<open>json::serialize\<close>.
\<close>

record response =
  res_version :: nat
  res_headers :: "(string \<times> string) list"
  res_status :: nat
  res_body :: json

definition task_json :: "Task \<Rightarrow> json" where
  "task_json task =
     JObject [(''id'', JInt (task_id task)), (''title'', JString (title task)),
              (''description'', JString (description task)),
              (''completed'', JBool (completed task))]"

text \<open>
  The \<^verbatim>\<open>try\<close> block of \<^verbatim>\<open>handle_api_request\<close>: the status and the body it
  sets, or the exception that leaves it. The two arguments of \<^verbatim>\<open>create_task\<close>
  are \<^verbatim>\<open>const char*\<close>; both conversions throw the same exception on a member
  that is not a string, so the order in which they are evaluated does not show.
\<close>

definition handle_api_request_try ::
  "boost_json \<Rightarrow> sqlite_env \<Rightarrow> sqlite3 \<Rightarrow> request \<Rightarrow> (exn + nat \<times> json) \<times> sqlite3" where
  "handle_api_request_try lib env db req =
     (if req_method req = GET \<and> req_target req = ''/tasks'' then
        (case TaskManager_get_all_tasks env db of
           (Inl e, db1) \<Rightarrow> (Inl e, db1)
         | (Inr tasks, db1) \<Rightarrow> (Inr (200, JArray (map task_json tasks)), db1))
      else if req_method req = POST \<and> req_target req = ''/tasks'' then
        (case parse lib (req_body req) of
           Inl m \<Rightarrow> (Inl (boost_json_error m), db)
         | Inr request_json \<Rightarrow>
             (case as_object lib request_json of
                Inl e \<Rightarrow> (Inl e, db)
              | Inr obj \<Rightarrow>
                  (case map_of obj ''title'' of
                     None \<Rightarrow> (Inl (runtime_error ''Field 'title' is required''), db)
                   | Some tv \<Rightarrow>
                       (case as_string lib tv of
                          Inl e \<Rightarrow> (Inl e, db)
                        | Inr t \<Rightarrow>
                            (case (case map_of obj ''description'' of
                                     None \<Rightarrow> Inr []
                                   | Some dv \<Rightarrow> as_string lib dv) of
                               Inl e \<Rightarrow> (Inl e, db)
                             | Inr d \<Rightarrow>
                                 (case TaskManager_create_task env db (c_str t) (c_str d) of
                                    (Inl e, db1) \<Rightarrow> (Inl e, db1)
                                  | (Inr i, db1) \<Rightarrow>
                                      (Inr (201, JObject [(''id'', JInt i)]), db1)))))))
      else (Inr (404, JObject [(''error'', JString ''Not found'')]), db))"

definition handle_api_request ::
  "boost_json \<Rightarrow> sqlite_env \<Rightarrow> sqlite3 \<Rightarrow> request \<Rightarrow> response \<times> sqlite3" where
  "handle_api_request lib env db req =
     (let res = \<lparr>res_version = req_version req,
                 res_headers = [(''Server'', ''C++ Rest Server''),
                                (''Content-Type'', ''application/json''),
                                (''Access-Control-Allow-Origin'', ''*'')],
                 res_status = 200, res_body = JNull\<rparr>
      in case handle_api_request_try lib env db req of
           (Inr (st, b), db1) \<Rightarrow> (res\<lparr>res_status := st, res_body := b\<rparr>, db1)
         | (Inl e, db1) \<Rightarrow>
             (res\<lparr>res_status := 500,
                  res_body := JObject [(''error'', JString (what e))]\<rparr>, db1))"

text \<open>\<^verbatim>\<open>value::is_object\<close> and \<^verbatim>\<open>value::is_string\<close> of Boost.JSON.\<close>

definition is_object :: "json \<Rightarrow> bool" where
  "is_object v = (case v of JObject kvs \<Rightarrow> True | _ \<Rightarrow> False)"

definition is_string :: "json \<Rightarrow> bool" where
  "is_string v = (case v of JString s \<Rightarrow> True | _ \<Rightarrow> False)"

section \<open>Concrete connections and engines\<close>

text \<open>
  The connection after \<^verbatim>\<open>initialize()\<close> on a new file, a connection that holds
  one task, and an engine that does every call asked of it (after a step that
  ran to the end \<^verbatim>\<open>sqlite3_errmsg\<close> has nothing to report but that).
\<close>

definition fresh_connection :: sqlite3 where
  "fresh_connection =
     \<lparr>tasks_table = [], autoinc_seq = 0, last_insert_rowid = 0, changes = 0, open_stmts = 0\<rparr>"

definition one_task_connection :: sqlite3 where
  "one_task_connection =
     \<lparr>tasks_table = [\<lparr>rowid = 1, r_title = ''a'', r_description = ''b'', r_completed = False\<rparr>],
      autoinc_seq = 1, last_insert_rowid = 1, changes = 1, open_stmts = 0\<rparr>"

definition engine_ok :: sqlite_env where
  "engine_ok =
     \<lparr>prepare_fails = False, step_error_at = None, errmsg = ''no more rows available''\<rparr>"

definition engine_down :: sqlite_env where
  "engine_down =
     \<lparr>prepare_fails = True, step_error_at = None, errmsg = ''disk I/O error''\<rparr>"

text \<open>
  What \<^verbatim>\<open>json::parse\<close> gives on the request bodies used below, and the texts
  of the two Boost.JSON errors the handler can meet.
\<close>

definition sample_parse :: "string \<Rightarrow> string + json" where
  \<open>sample_parse s =
     (if s = ''{"title":"a"}'' then Inr (JObject [(''title'', JString ''a'')])
      else if s = ''{"title":""}'' then Inr (JObject [(''title'', JString [])])
      else if s = ''{"title":7}'' then Inr (JObject [(''title'', JInt 7)])
      else if s = ''[1]'' then Inr (JArray [JInt 1])
      else Inl ''syntax error'')\<close>

definition sample_json :: boost_json where
  "sample_json =
     \<lparr>parse = sample_parse, not_object_what = ''value is not an object'',
      not_string_what = ''value is not a string''\<rparr>"

definition tasks_request :: "verb \<Rightarrow> string \<Rightarrow> request" where
  "tasks_request m b =
     \<lparr>req_version = 11, req_method = m, req_target = ''/tasks'', req_body = b\<rparr>"

section \<open>Unfolding the layers\<close>

lemmas store_defs =
  Database_add_task_def Database_update_task_def Database_delete_task_def
  Database_get_task_by_id_def Database_get_all_tasks_def sqlite3_prepare_v2_def
  sqlite3_finalize_def step_insert_def step_update_def step_delete_def
  step_select_by_id_def largest_rowid_def current_row_def sqlite3_column_text_def
  sqlite3_column_int_def

lemmas service_defs =
  TaskManager_create_task_def TaskManager_update_task_def TaskManager_delete_task_def
  TaskManager_get_task_def TaskManager_get_all_tasks_def

lemmas concrete_defs =
  fresh_connection_def one_task_connection_def engine_ok_def engine_down_def
  c_str_def int32_def to_string_def digit_char_def

section \<open>The lookup by id never returns a task\<close>

text \<open>
  Whatever the engine does and whatever the table holds, \<^verbatim>\<open>get_task_by_id\<close>
  ends in a failure and leaves the table as it was: a row that exists makes it
  throw, and with no current row the title is assigned from a null pointer.
  \<^verbatim>\<open>TaskManager::update_task\<close> and \<^verbatim>\<open>TaskManager::get_task\<close> start with this
  lookup, so neither returns a value either, and \<^verbatim>\<open>update_task\<close> never
  reaches \<^verbatim>\<open>Database::update_task\<close>.
\<close>

lemma Database_get_task_by_id_fails:
  "\<exists>f db1. Database_get_task_by_id env db i = (Inl f, db1) \<and> tasks_table db1 = tasks_table db"
  by (simp add: store_defs split: step_result.splits prod.splits bool.splits option.splits if_splits)

lemma TaskManager_update_task_fails:
  "\<exists>f db1. TaskManager_update_task env env' db i t d c = (Inl f, db1)
      \<and> tasks_table db1 = tasks_table db"
proof -
  obtain f db1 where "Database_get_task_by_id env db i = (Inl f, db1)"
    and "tasks_table db1 = tasks_table db"
    using Database_get_task_by_id_fails by blast
  then show ?thesis by (simp add: TaskManager_update_task_def)
qed

lemma TaskManager_get_task_fails:
  "\<exists>f db1. TaskManager_get_task env db i = (Inl f, db1) \<and> tasks_table db1 = tasks_table db"
proof -
  obtain f db1 where "Database_get_task_by_id env db i = (Inl f, db1)"
    and "tasks_table db1 = tasks_table db"
    using Database_get_task_by_id_fails by blast
  then show ?thesis by (simp add: TaskManager_get_task_def)
qed

text \<open>
  At a row that exists: on the connection that holds task 1,
  \<^verbatim>\<open>update_task(1, "t", "d", true)\<close> throws "Task not found with id: 1" and
  leaves the row as it was. A statement that starts from
  "\<^verbatim>\<open>update_task\<close> returned true" therefore has no instance on this code.
\<close>

lemma update_task_existing_id_throws:
  "TaskManager_update_task engine_ok engine_ok one_task_connection 1 ''t'' ''d'' True =
     (Inl (throws (runtime_error ''Task not found with id: 1'')), one_task_connection)"
  by (simp add: service_defs store_defs concrete_defs dec.simps)

lemma update_task_never_returns_true:
  "fst (TaskManager_update_task env env' db i t d c) \<noteq> Inr True"
proof -
  obtain f db1 where "TaskManager_update_task env env' db i t d c = (Inl f, db1)"
    using TaskManager_update_task_fails by blast
  then show ?thesis by simp
qed

section \<open>Claims about the store and the task manager\<close>

text \<open>
  C1 (the stored title is never empty and never longer than 100 characters).
  The claim fails on a title that starts with a zero byte. Such a title is not
  empty and has length 1, so \<^verbatim>\<open>create_task\<close> accepts it; the insert binds the
  title as a C string, which ends at the zero byte, and the row that is stored
  has the empty title.
\<close>

theorem create_task_zero_byte_title_stores_empty_title:
  "TaskManager_create_task engine_ok fresh_connection [CHR 0x00] [] =
     (Inr 1,
      \<lparr>tasks_table = [\<lparr>rowid = 1, r_title = [], r_description = [], r_completed = False\<rparr>],
       autoinc_seq = 1, last_insert_rowid = 1, changes = 1, open_stmts = 0\<rparr>)"
  by (simp add: service_defs store_defs concrete_defs)

text \<open>
  What does hold of the stored titles: \<^verbatim>\<open>create_task\<close> either leaves the table
  alone or appends one row, whose title is the given one cut at its first zero
  byte. So the bound of 100 is kept, and the title stays non-empty as long as
  the given title does not begin with a zero byte.
\<close>

lemma create_task_table:
  "tasks_table (snd (TaskManager_create_task env db t d)) = tasks_table db
   \<or> (t \<noteq> [] \<and> length t \<le> 100
      \<and> (\<exists>r. tasks_table (snd (TaskManager_create_task env db t d)) = tasks_table db @ [r]
             \<and> r_title r = c_str t))"
  by (simp add: TaskManager_create_task_def Database_add_task_def sqlite3_prepare_v2_def
      sqlite3_finalize_def step_insert_def Let_def)

lemma c_str_bounds:
  "length (c_str t) \<le> length t" "t \<noteq> [] \<Longrightarrow> hd t \<noteq> CHR 0x00 \<Longrightarrow> c_str t \<noteq> []"
  by (simp add: c_str_def length_takeWhile_le, cases t) (simp_all add: c_str_def)

lemma create_task_title_invariant:
  assumes inv: "\<forall>r \<in> set (tasks_table db). r_title r \<noteq> [] \<and> length (r_title r) \<le> 100"
    and nz: "t = [] \<or> hd t \<noteq> CHR 0x00"
  shows "\<forall>r \<in> set (tasks_table (snd (TaskManager_create_task env db t d))).
           r_title r \<noteq> [] \<and> length (r_title r) \<le> 100"
  using create_task_table [of env db t d]
proof
  assume "tasks_table (snd (TaskManager_create_task env db t d)) = tasks_table db"
  with inv show ?thesis by simp
next
  assume "t \<noteq> [] \<and> length t \<le> 100
      \<and> (\<exists>r. tasks_table (snd (TaskManager_create_task env db t d)) = tasks_table db @ [r]
             \<and> r_title r = c_str t)"
  then obtain r where t: "t \<noteq> []" "length t \<le> 100"
    and tab: "tasks_table (snd (TaskManager_create_task env db t d)) = tasks_table db @ [r]"
    and r: "r_title r = c_str t" by blast
  from t nz have "c_str t \<noteq> []" by (simp add: c_str_bounds)
  moreover from t have "length (c_str t) \<le> 100"
    using c_str_bounds(1) [of t] by simp
  ultimately show ?thesis using inv tab r by simp
qed

text \<open>
  C2 (\<^verbatim>\<open>update_task\<close> on an id with no row returns false without raising).
  On the empty table, \<^verbatim>\<open>update_task(1, "a", "", false)\<close> does not return false:
  the lookup finds no row, takes the branch that reads the columns, and assigns
  the title from a null pointer. The table is unchanged; the statement of the
  lookup stays open.
\<close>

theorem update_task_missing_id_null_string:
  "TaskManager_update_task engine_ok engine_ok fresh_connection 1 ''a'' [] False =
     (Inl null_string, fresh_connection\<lparr>open_stmts := 1\<rparr>)"
  by (simp add: service_defs store_defs concrete_defs)

text \<open>
  C6 (\<^verbatim>\<open>create_task\<close> returns a new positive id and \<^verbatim>\<open>get_task\<close> on it returns the
  task). On the empty table \<^verbatim>\<open>create_task("a", "b")\<close> returns 1 and stores the
  row, and the \<^verbatim>\<open>get_task(1)\<close> that follows throws "Task not found with id: 1".
\<close>

theorem create_task_then_get_task_throws:
  "TaskManager_create_task engine_ok fresh_connection ''a'' ''b'' = (Inr 1, one_task_connection)
   \<and> TaskManager_get_task engine_ok one_task_connection 1 =
       (Inl (throws (runtime_error ''Task not found with id: 1'')), one_task_connection)"
  by (simp add: service_defs store_defs concrete_defs dec.simps)

text \<open>
  C7 (after a successful \<^verbatim>\<open>delete_task(id)\<close>, \<^verbatim>\<open>get_task(id)\<close> fails with the
  not-found error). On the connection that holds task 1, \<^verbatim>\<open>delete_task(1)\<close>
  returns true and removes the row; the \<^verbatim>\<open>get_task(1)\<close> that follows throws
  nothing: it assigns the title from a null pointer.
\<close>

theorem delete_task_then_get_task_null_string:
  "TaskManager_delete_task engine_ok one_task_connection 1 =
     (Inr True, one_task_connection\<lparr>tasks_table := []\<rparr>)
   \<and> TaskManager_get_task engine_ok (one_task_connection\<lparr>tasks_table := []\<rparr>) 1 =
       (Inl null_string, one_task_connection\<lparr>tasks_table := [], open_stmts := 1\<rparr>)"
  by (simp add: service_defs store_defs concrete_defs)

text \<open>
  C9 (every prepared statement is finalized on every exit path). On the empty
  table no statement is open; \<^verbatim>\<open>Database::delete_task(1)\<close> and
  \<^verbatim>\<open>Database::update_task\<close> of a task with id 1 both throw on the zero-row
  branch and leave their statement open.
\<close>

theorem zero_row_throw_leaves_statement_open:
  "open_stmts fresh_connection = 0
   \<and> Database_delete_task engine_ok fresh_connection 1 =
       (Inl (runtime_error ''no more rows available''), fresh_connection\<lparr>open_stmts := 1\<rparr>)
   \<and> Database_update_task engine_ok fresh_connection
         \<lparr>task_id = 1, title = ''a'', description = [], completed = False\<rparr> =
       (Inl (runtime_error ''no more rows available''), fresh_connection\<lparr>open_stmts := 1\<rparr>)"
  by (simp add: store_defs concrete_defs)

text \<open>
  C3. When the statement of \<^verbatim>\<open>Database::update_task\<close> or \<^verbatim>\<open>Database::delete_task\<close>
  is prepared and stepped without an engine error: if no row has the id, the
  method throws a \<^verbatim>\<open>std::runtime_error\<close> (the store error, with the text of
  \<^verbatim>\<open>sqlite3_errmsg\<close>); if exactly one row has the id, it returns true.
\<close>

theorem store_zero_rows_throws_one_row_returns_true:
  assumes "\<not> prepare_fails env" and "step_error_at env \<noteq> Some 0"
  shows "((\<forall>r \<in> set (tasks_table db). rowid r \<noteq> task_id task) \<longrightarrow>
            fst (Database_update_task env db task) = Inl (runtime_error (errmsg env)))
       \<and> (length (filter (\<lambda>r. rowid r = task_id task) (tasks_table db)) = 1 \<longrightarrow>
            fst (Database_update_task env db task) = Inr True)
       \<and> ((\<forall>r \<in> set (tasks_table db). rowid r \<noteq> i) \<longrightarrow>
            fst (Database_delete_task env db i) = Inl (runtime_error (errmsg env)))
       \<and> (length (filter (\<lambda>r. rowid r = i) (tasks_table db)) = 1 \<longrightarrow>
            fst (Database_delete_task env db i) = Inr True)"
  using assms by (auto simp add: store_defs filter_empty_conv)

theorem store_zero_rows_throws_one_row_returns_true_witness:
  "fst (Database_update_task engine_ok one_task_connection
          \<lparr>task_id = 2, title = ''t'', description = ''d'', completed = True\<rparr>)
     = Inl (runtime_error ''no more rows available'')
   \<and> fst (Database_update_task engine_ok one_task_connection
          \<lparr>task_id = 1, title = ''t'', description = ''d'', completed = True\<rparr>) = Inr True
   \<and> fst (Database_delete_task engine_ok one_task_connection 2)
     = Inl (runtime_error ''no more rows available'')
   \<and> fst (Database_delete_task engine_ok one_task_connection 1) = Inr True"
  using store_zero_rows_throws_one_row_returns_true [of engine_ok one_task_connection
      "\<lparr>task_id = 2, title = ''t'', description = ''d'', completed = True\<rparr>" 2]
    store_zero_rows_throws_one_row_returns_true [of engine_ok one_task_connection
      "\<lparr>task_id = 1, title = ''t'', description = ''d'', completed = True\<rparr>" 1]
  by (simp add: concrete_defs)

text \<open>
  C4 as the claim words it: \<^verbatim>\<open>create_task("", d)\<close> fails with the message
  "empty title" and a title of more than 100 characters with "title too long".
  The exceptions of the code carry other messages.
\<close>

theorem create_task_validation_message_counterexample:
  "fst (TaskManager_create_task engine_ok fresh_connection [] []) \<noteq>
     Inl (invalid_argument ''empty title'')
   \<and> fst (TaskManager_create_task engine_ok fresh_connection (replicate 101 CHR ''x'') []) \<noteq>
     Inl (invalid_argument ''title too long'')"
  by (simp add: TaskManager_create_task_def)

text \<open>
  C4, amended. For every description, \<^verbatim>\<open>create_task\<close> with the empty title
  throws \<^verbatim>\<open>std::invalid_argument("Task title cannot be empty")\<close>, and with a
  title longer than 100 it throws
  \<^verbatim>\<open>std::invalid_argument("Task title too long (max 100 chars)")\<close>; in both cases
  the connection, and so the table, is exactly as before.
\<close>

theorem create_task_rejects_empty_and_long_title:
  "TaskManager_create_task env db [] d =
      (Inl (invalid_argument ''Task title cannot be empty''), db)
   \<and> (100 < length t \<longrightarrow>
        TaskManager_create_task env db t d =
          (Inl (invalid_argument ''Task title too long (max 100 chars)''), db))"
  by (auto simp add: TaskManager_create_task_def)

theorem create_task_rejects_empty_and_long_title_witness:
  "100 < length (replicate 101 CHR ''x'')
   \<and> TaskManager_create_task engine_ok one_task_connection (replicate 101 CHR ''x'') ''d'' =
       (Inl (invalid_argument ''Task title too long (max 100 chars)''), one_task_connection)
   \<and> TaskManager_create_task engine_ok one_task_connection [] ''d'' =
       (Inl (invalid_argument ''Task title cannot be empty''), one_task_connection)"
  using create_task_rejects_empty_and_long_title
          [of engine_ok one_task_connection "''d''" "replicate 101 CHR ''x''"]
  by simp

section \<open>Claims about the router\<close>

lemmas http_defs =
  handle_api_request_def handle_api_request_try_def as_object_def as_string_def

lemma try_parse_error:
  "req_method req = POST \<Longrightarrow> req_target req = ''/tasks'' \<Longrightarrow>
   parse lib (req_body req) = Inl m \<Longrightarrow>
   handle_api_request_try lib env db req = (Inl (boost_json_error m), db)"
  by (simp add: handle_api_request_try_def)

lemma try_not_object:
  "req_method req = POST \<Longrightarrow> req_target req = ''/tasks'' \<Longrightarrow>
   parse lib (req_body req) = Inr v \<Longrightarrow> \<not> is_object v \<Longrightarrow>
   handle_api_request_try lib env db req = (Inl (boost_json_error (not_object_what lib)), db)"
  by (cases v) (simp_all add: handle_api_request_try_def as_object_def is_object_def)

lemma try_title_not_string:
  "req_method req = POST \<Longrightarrow> req_target req = ''/tasks'' \<Longrightarrow>
   parse lib (req_body req) = Inr (JObject obj) \<Longrightarrow> map_of obj ''title'' = Some tv \<Longrightarrow>
   \<not> is_string tv \<Longrightarrow>
   handle_api_request_try lib env db req = (Inl (boost_json_error (not_string_what lib)), db)"
  by (cases tv)
     (simp_all add: handle_api_request_try_def as_object_def as_string_def is_string_def)

lemma catch_all:
  "handle_api_request_try lib env db req = (Inl e, db1) \<Longrightarrow>
   res_status (fst (handle_api_request lib env db req)) = 500
   \<and> res_body (fst (handle_api_request lib env db req)) = JObject [(''error'', JString (what e))]
   \<and> snd (handle_api_request lib env db req) = db1"
  by (simp add: handle_api_request_def)

text \<open>
  C8. For a request to \<^verbatim>\<open>/tasks\<close>: if it is a GET and \<^verbatim>\<open>get_all_tasks\<close> throws
  \<open>e\<close>, or it is a POST whose body parses to an object with the string title
  \<open>t\<close> (and the string description \<open>d\<close>, or none and \<open>d\<close> empty) and
  \<^verbatim>\<open>create_task\<close> throws \<open>e\<close>, then the response has status 500 and the body
  \<^verbatim>\<open>{"error": e.what()}\<close>, whichever exception \<open>e\<close> is.
\<close>

theorem router_maps_every_error_to_500:
  assumes "req_target req = ''/tasks''"
  shows "(req_method req = GET \<and> fst (TaskManager_get_all_tasks env db) = Inl e \<longrightarrow>
            res_status (fst (handle_api_request lib env db req)) = 500
          \<and> res_body (fst (handle_api_request lib env db req)) =
              JObject [(''error'', JString (what e))])
       \<and> (req_method req = POST
          \<and> parse lib (req_body req) = Inr (JObject obj)
          \<and> map_of obj ''title'' = Some (JString t)
          \<and> (case map_of obj ''description'' of None \<Rightarrow> d = [] | Some dv \<Rightarrow> dv = JString d)
          \<and> fst (TaskManager_create_task env db (c_str t) (c_str d)) = Inl e \<longrightarrow>
            res_status (fst (handle_api_request lib env db req)) = 500
          \<and> res_body (fst (handle_api_request lib env db req)) =
              JObject [(''error'', JString (what e))])"
  using assms
  by (auto simp add: http_defs split: prod.splits sum.splits option.splits)

theorem router_maps_every_error_to_500_witness:
  \<open>res_status (fst (handle_api_request sample_json engine_down one_task_connection
        (tasks_request GET []))) = 500
   \<and> res_body (fst (handle_api_request sample_json engine_down one_task_connection
        (tasks_request GET []))) = JObject [(''error'', JString ''disk I/O error'')]
   \<and> res_status (fst (handle_api_request sample_json engine_ok one_task_connection
        (tasks_request POST ''{"title":""}''))) = 500
   \<and> res_body (fst (handle_api_request sample_json engine_ok one_task_connection
        (tasks_request POST ''{"title":""}''))) =
        JObject [(''error'', JString ''Task title cannot be empty'')]
   \<and> res_status (fst (handle_api_request sample_json engine_down one_task_connection
        (tasks_request POST ''{"title":"a"}''))) = 500
   \<and> res_body (fst (handle_api_request sample_json engine_down one_task_connection
        (tasks_request POST ''{"title":"a"}''))) =
        JObject [(''error'', JString ''disk I/O error'')]\<close>
  using router_maps_every_error_to_500 [of "tasks_request GET []" engine_down one_task_connection
             "runtime_error ''disk I/O error''" sample_json]
    router_maps_every_error_to_500 [of \<open>tasks_request POST ''{"title":""}''\<close> engine_ok
             one_task_connection "invalid_argument ''Task title cannot be empty''" sample_json
             "[(''title'', JString [])]" "[]" "[]"]
    router_maps_every_error_to_500 [of \<open>tasks_request POST ''{"title":"a"}''\<close> engine_down
             one_task_connection "runtime_error ''disk I/O error''" sample_json
             "[(''title'', JString ''a'')]" "''a''" "[]"]
  by (simp add: tasks_request_def sample_json_def sample_parse_def service_defs store_defs
      concrete_defs)

text \<open>
  C10. For a POST to \<^verbatim>\<open>/tasks\<close> whose body does not parse, or parses to a value
  that is not an object, or parses to an object whose member \<^verbatim>\<open>title\<close> is not a
  string: the response has status 500, its body is an object with the one
  member \<^verbatim>\<open>error\<close>, and the connection (so the table) is as before.
\<close>

theorem post_bad_body_is_500_and_adds_no_task:
  assumes "req_method req = POST" and "req_target req = ''/tasks''"
    and "(\<exists>m. parse lib (req_body req) = Inl m)
       \<or> (\<exists>v. parse lib (req_body req) = Inr v \<and> \<not> is_object v)
       \<or> (\<exists>obj tv. parse lib (req_body req) = Inr (JObject obj)
             \<and> map_of obj ''title'' = Some tv \<and> \<not> is_string tv)"
  shows "res_status (fst (handle_api_request lib env db req)) = 500
       \<and> (\<exists>m. res_body (fst (handle_api_request lib env db req)) =
                 JObject [(''error'', JString m)])
       \<and> snd (handle_api_request lib env db req) = db"
proof -
  have "\<exists>e. handle_api_request_try lib env db req = (Inl e, db)"
    using assms try_parse_error try_not_object try_title_not_string by blast
  then obtain e where "handle_api_request_try lib env db req = (Inl e, db)" ..
  from catch_all [OF this] show ?thesis by blast
qed

theorem post_bad_body_is_500_and_adds_no_task_witness:
  \<open>(res_status (fst (handle_api_request sample_json engine_ok one_task_connection
        (tasks_request POST ''{"title":''))) = 500
    \<and> (\<exists>m. res_body (fst (handle_api_request sample_json engine_ok one_task_connection
        (tasks_request POST ''{"title":''))) = JObject [(''error'', JString m)])
    \<and> snd (handle_api_request sample_json engine_ok one_task_connection
        (tasks_request POST ''{"title":'')) = one_task_connection)
   \<and> (res_status (fst (handle_api_request sample_json engine_ok one_task_connection
        (tasks_request POST ''[1]''))) = 500
    \<and> (\<exists>m. res_body (fst (handle_api_request sample_json engine_ok one_task_connection
        (tasks_request POST ''[1]''))) = JObject [(''error'', JString m)])
    \<and> snd (handle_api_request sample_json engine_ok one_task_connection
        (tasks_request POST ''[1]'')) = one_task_connection)
   \<and> (res_status (fst (handle_api_request sample_json engine_ok one_task_connection
        (tasks_request POST ''{"title":7}''))) = 500
    \<and> (\<exists>m. res_body (fst (handle_api_request sample_json engine_ok one_task_connection
        (tasks_request POST ''{"title":7}''))) = JObject [(''error'', JString m)])
    \<and> snd (handle_api_request sample_json engine_ok one_task_connection
        (tasks_request POST ''{"title":7}'')) = one_task_connection)\<close>
proof -
  have a: \<open>\<exists>m. parse sample_json (req_body (tasks_request POST ''{"title":'')) = Inl m\<close>
    by (simp add: sample_json_def sample_parse_def tasks_request_def)
  have b: \<open>\<exists>v. parse sample_json (req_body (tasks_request POST ''[1]'')) = Inr v
               \<and> \<not> is_object v\<close>
    by (simp add: sample_json_def sample_parse_def tasks_request_def is_object_def)
  have c: \<open>\<exists>obj tv. parse sample_json (req_body (tasks_request POST ''{"title":7}''))
                 = Inr (JObject obj)
             \<and> map_of obj ''title'' = Some tv \<and> \<not> is_string tv\<close>
    by (simp add: sample_json_def sample_parse_def tasks_request_def is_string_def)
  have m: "\<And>b. req_method (tasks_request POST b) = POST"
    and t: "\<And>b. req_target (tasks_request POST b) = ''/tasks''"
    by (simp_all add: tasks_request_def)
  show ?thesis
    using post_bad_body_is_500_and_adds_no_task [OF m t disjI1, OF a]
      post_bad_body_is_500_and_adds_no_task [OF m t disjI2, OF disjI1, OF b]
      post_bad_body_is_500_and_adds_no_task [OF m t disjI2, OF disjI2, OF c]
    by blast
qed

end
